theory Spec2Isabelle
  imports Main "HOL-Library.Word" "HOL-Library.Sublist"
begin

section \<open>The error-aggregation buffer (package \<open>buffer\<close>)\<close>

text \<open>
  The package keeps a mutex-guarded slice of errors and two \<open>int64\<close> counters that
  are only touched through \<open>sync/atomic\<close>. Every method takes and releases the mutex
  within its own body, and every counter access is one atomic instruction, so an
  execution is a sequence of whole method calls; the model below is that sequence, with
  the receiver passed in and handed back. The mutex itself carries no state between
  calls and has no field in the record.
\<close>

subsection \<open>Data\<close>

type_synonym int64 = "64 word"

text \<open>
  A value of Go's interface type \<open>error\<close>: the nil interface, or a value whose
  \<open>Error()\<close> method yields the given text (as made by \<open>errors.New\<close>).
\<close>

datatype error = nil | errors_New string

record Aggregation =
  Errors :: "error list"
  SuccessCount :: int64
  ErrorCount :: int64

record Buffer =
  ErrBuffer :: "error list"
  SuccessCount :: int64
  ErrorCount :: int64

subsection \<open>The formatting verbs of \<open>fmt.Sprintf\<close>\<close>

text \<open>\<open>%d\<close>: a signed integer in decimal, with a leading minus sign when negative.\<close>

function dec_nat :: "nat \<Rightarrow> string" where
  "dec_nat n =
     (if n < 10 then [''0123456789'' ! n]
      else dec_nat (n div 10) @ [''0123456789'' ! (n mod 10)])"
  by pat_completeness auto
termination
  by (relation "measure (\<lambda>n. n)") auto

declare dec_nat.simps [simp del]

definition fmt_d :: "int \<Rightarrow> string" where
  "fmt_d i = (if i < 0 then CHR ''-'' # dec_nat (nat (- i)) else dec_nat (nat i))"

text \<open>\<open>%v\<close> on an \<open>error\<close>: the text of \<open>Error()\<close>, and \<open><nil>\<close> for the nil interface.\<close>

fun fmt_v :: "error \<Rightarrow> string" where
  "fmt_v nil = ''<nil>''"
| "fmt_v (errors_New msg) = msg"

subsection \<open>Construction and the methods of \<open>Buffer\<close>\<close>

definition New :: Buffer where
  "New = \<lparr>ErrBuffer = [], SuccessCount = 0, ErrorCount = 0\<rparr>"

definition AddError :: "Buffer \<Rightarrow> error \<Rightarrow> Buffer" where
  "AddError b item = b\<lparr>ErrBuffer := ErrBuffer b @ [item]\<rparr>"

text \<open>
  The builtins \<open>make\<close> (a slice of the given length, every element the zero value
  \<open>nil\<close>) and \<open>copy\<close> (overwrites the first \<open>min (len dst) (len src)\<close> elements of
  the destination), as \<open>FlushErrorBuffer\<close> uses them.
\<close>

definition make :: "nat \<Rightarrow> error list" where
  "make n = replicate n nil"

definition copy :: "error list \<Rightarrow> error list \<Rightarrow> error list" where
  "copy dst src =
     (let n = min (length dst) (length src) in take n src @ drop n dst)"

definition FlushErrorBuffer :: "Buffer \<Rightarrow> error list \<times> Buffer" where
  "FlushErrorBuffer b =
     (let contents = make (length (ErrBuffer b));
          contents = copy contents (ErrBuffer b)
      in (contents, b\<lparr>ErrBuffer := []\<rparr>))"

definition IncrementSuccess :: "Buffer \<Rightarrow> Buffer" where
  "IncrementSuccess b = b\<lparr>SuccessCount := SuccessCount b + 1\<rparr>"

definition IncrementError :: "Buffer \<Rightarrow> Buffer" where
  "IncrementError b = b\<lparr>ErrorCount := ErrorCount b + 1\<rparr>"

definition resetCounts :: "Buffer \<Rightarrow> Buffer" where
  "resetCounts b = (b\<lparr>SuccessCount := 0\<rparr>)\<lparr>ErrorCount := 0\<rparr>"

definition GetSuccessCount :: "Buffer \<Rightarrow> int64 \<times> Buffer" where
  "GetSuccessCount b = (SuccessCount b, b)"

definition GetErrorCount :: "Buffer \<Rightarrow> int64 \<times> Buffer" where
  "GetErrorCount b = (ErrorCount b, b)"

subsection \<open>\<open>FormatOutput\<close> and \<open>GetAggregation\<close>\<close>

text \<open>
  The \<open>range\<close> loop of \<open>FormatOutput\<close>: \<open>i\<close> is the index of the head of the
  remaining entries, \<open>result\<close> the string built so far. The index is a Go \<open>int\<close>;
  a slice is never long enough for \<open>i + 1\<close> to overflow, so it is a \<open>nat\<close> here.
\<close>

fun format_errors :: "nat \<Rightarrow> error list \<Rightarrow> string \<Rightarrow> string" where
  "format_errors i [] result = result"
| "format_errors i (err # errs) result =
     format_errors (i + 1) errs
       (result @ ''    '' @ fmt_d (int (i + 1)) @ '': '' @ fmt_v err @ ''\<newline>'')"

definition FormatOutput :: "Aggregation \<Rightarrow> string \<times> Aggregation" where
  "FormatOutput a =
     (let result = ''Aggregation Summary:\<newline>'';
          result = result @ ''  Successes: '' @ fmt_d (sint (Aggregation.SuccessCount a)) @ ''\<newline>'';
          result = result @ ''  Errors: '' @ fmt_d (sint (Aggregation.ErrorCount a)) @ ''\<newline>'';
          result = (if length (Errors a) > 0
                    then format_errors 0 (Errors a) (result @ ''  Error Details:\<newline>'')
                    else result)
      in (result, a))"

text \<open>
  The fields of the composite literal are evaluated in the order they are written:
  the success counter, the error counter, then the flush.
\<close>

definition GetAggregation :: "Buffer \<Rightarrow> string \<times> Buffer" where
  "GetAggregation b =
     (let (sc, b1) = GetSuccessCount b;
          (ec, b2) = GetErrorCount b1;
          (errs, b3) = FlushErrorBuffer b2;
          aggr = \<lparr>Errors = errs, SuccessCount = sc, ErrorCount = ec\<rparr>;
          b4 = resetCounts b3
      in (fst (FormatOutput aggr), b4))"

subsection \<open>Calls as data\<close>

text \<open>One constructor per method of \<open>Buffer\<close>, and what a call hands back.\<close>

datatype call =
    Call_AddError error
  | Call_FlushErrorBuffer
  | Call_IncrementSuccess
  | Call_IncrementError
  | Call_resetCounts
  | Call_GetSuccessCount
  | Call_GetErrorCount
  | Call_GetAggregation

datatype ret = Ret_none | Ret_errors "error list" | Ret_int64 int64 | Ret_string string

fun step :: "call \<Rightarrow> Buffer \<Rightarrow> ret \<times> Buffer" where
  "step (Call_AddError item) b = (Ret_none, AddError b item)"
| "step Call_FlushErrorBuffer b = (case FlushErrorBuffer b of (es, b') \<Rightarrow> (Ret_errors es, b'))"
| "step Call_IncrementSuccess b = (Ret_none, IncrementSuccess b)"
| "step Call_IncrementError b = (Ret_none, IncrementError b)"
| "step Call_resetCounts b = (Ret_none, resetCounts b)"
| "step Call_GetSuccessCount b = (case GetSuccessCount b of (n, b') \<Rightarrow> (Ret_int64 n, b'))"
| "step Call_GetErrorCount b = (case GetErrorCount b of (n, b') \<Rightarrow> (Ret_int64 n, b'))"
| "step Call_GetAggregation b = (case GetAggregation b of (s, b') \<Rightarrow> (Ret_string s, b'))"

fun exec :: "call list \<Rightarrow> Buffer \<Rightarrow> Buffer" where
  "exec [] b = b"
| "exec (c # cs) b = exec cs (snd (step c b))"

subsection \<open>Reset points\<close>

text \<open>
  A counter is set back to zero by \<open>resetCounts\<close> and by \<open>GetAggregation\<close>, and
  starts at zero in \<open>New\<close>. \<open>since_reset k cs\<close> is the number of calls \<open>k\<close> in the
  sequence \<open>cs\<close> after its last reset point (in all of \<open>cs\<close> when it has none).
\<close>

definition is_reset :: "call \<Rightarrow> bool" where
  "is_reset c = (c = Call_resetCounts \<or> c = Call_GetAggregation)"

definition since_reset :: "call \<Rightarrow> call list \<Rightarrow> nat" where
  "since_reset k cs = count_list (takeWhile (\<lambda>c. \<not> is_reset c) (rev cs)) k"

subsection \<open>The report as the specification words it\<close>

text \<open>
  One detail line: four blanks, the 1-based index, a colon and a blank, the cause, a
  newline. The whole report: the header line, the two count lines and, exactly when there
  are details, the line \<open>Error Details:\<close> followed by the numbered detail lines.
\<close>

definition report_line :: "nat \<times> error \<Rightarrow> string" where
  "report_line p = ''    '' @ fmt_d (int (fst p)) @ '': '' @ fmt_v (snd p) @ ''\<newline>''"

definition report_spec :: "int64 \<Rightarrow> int64 \<Rightarrow> error list \<Rightarrow> string" where
  "report_spec s e ds =
     ''Aggregation Summary:\<newline>'' @
     ''  Successes: '' @ fmt_d (sint s) @ ''\<newline>'' @
     ''  Errors: '' @ fmt_d (sint e) @ ''\<newline>'' @
     (if ds \<noteq> [] then ''  Error Details:\<newline>'' @ concat (map report_line (enumerate 1 ds))
      else [])"

section \<open>Basic facts about the methods\<close>

lemma FlushErrorBuffer_eq: "FlushErrorBuffer b = (ErrBuffer b, b\<lparr>ErrBuffer := []\<rparr>)"
  by (simp add: FlushErrorBuffer_def make_def copy_def)

lemma GetAggregation_state:
  "snd (GetAggregation b) = resetCounts (snd (FlushErrorBuffer b))"
  by (simp add: GetAggregation_def GetSuccessCount_def GetErrorCount_def
      FlushErrorBuffer_eq Let_def)

lemma GetAggregation_report:
  "fst (GetAggregation b) =
     fst (FormatOutput \<lparr>Errors = ErrBuffer b, SuccessCount = SuccessCount b,
                         ErrorCount = ErrorCount b\<rparr>)"
  by (simp add: GetAggregation_def GetSuccessCount_def GetErrorCount_def
      FlushErrorBuffer_eq Let_def)

lemma exec_snoc: "exec (cs @ [c]) b = snd (step c (exec cs b))"
  by (induction cs arbitrary: b) simp_all

lemma SuccessCount_step:
  "SuccessCount (snd (step c b)) =
     (if c = Call_IncrementSuccess then SuccessCount b + 1
      else if c = Call_resetCounts \<or> c = Call_GetAggregation then 0
      else SuccessCount b)"
  by (cases c)
    (simp_all add: AddError_def FlushErrorBuffer_eq IncrementSuccess_def IncrementError_def
      resetCounts_def GetSuccessCount_def GetErrorCount_def GetAggregation_state split_beta)

lemma ErrorCount_step:
  "ErrorCount (snd (step c b)) =
     (if c = Call_IncrementError then ErrorCount b + 1
      else if c = Call_resetCounts \<or> c = Call_GetAggregation then 0
      else ErrorCount b)"
  by (cases c)
    (simp_all add: AddError_def FlushErrorBuffer_eq IncrementSuccess_def IncrementError_def
      resetCounts_def GetSuccessCount_def GetErrorCount_def GetAggregation_state split_beta)

subsection \<open>Signed reads of a 64-bit counter\<close>

lemma sint_word_of_nat_small:
  assumes "n < 2 ^ 63"
  shows "sint (word_of_nat n :: int64) = int n"
proof -
  have "int n < 2 ^ 63"
    using assms by (metis of_nat_less_iff of_nat_numeral of_nat_power)
  then have "signed_take_bit 63 (int n) = int n"
    by (intro signed_take_bit_int_eq_self) simp_all
  then show ?thesis by (simp add: signed_of_nat)
qed

lemma sint_eq_unat_small:
  assumes "unat (w :: int64) < 2 ^ 63"
  shows "sint w = int (unat w)"
proof -
  have "sint (word_of_nat (unat w) :: int64) = int (unat w)"
    using assms by (rule sint_word_of_nat_small)
  then show ?thesis by simp
qed

lemma unat_succ_le: "unat (x + 1 :: int64) \<le> unat x + 1"
  by (simp add: unat_word_ariths)

lemma sint_succ_small:
  assumes "unat (w :: int64) + 1 < 2 ^ 63"
  shows "sint (w + 1) = sint w + 1"
proof -
  have "unat w + unat (1 :: int64) < 2 ^ LENGTH(64)"
    using assms by simp
  then have u: "unat (w + 1) = unat w + 1"
    by (simp only: unat_add_lem [THEN iffD1]) simp
  have "sint (w + 1) = int (unat (w + 1))"
    using assms u by (intro sint_eq_unat_small) simp
  moreover have "sint w = int (unat w)"
    using assms by (intro sint_eq_unat_small) simp
  ultimately show ?thesis using u by simp
qed

subsection \<open>Counters under repeated increments\<close>

lemma SuccessCount_funpow_IncrementSuccess:
  "SuccessCount ((IncrementSuccess ^^ n) b) = SuccessCount b + word_of_nat n"
  by (induction n) (simp_all add: IncrementSuccess_def)

lemma ErrorCount_funpow_IncrementError:
  "ErrorCount ((IncrementError ^^ n) b) = ErrorCount b + word_of_nat n"
  by (induction n) (simp_all add: IncrementError_def)

lemma SuccessCount_exec_replicate:
  "SuccessCount (exec (replicate n Call_IncrementSuccess) b) = SuccessCount b + word_of_nat n"
  by (induction n arbitrary: b) (simp_all add: IncrementSuccess_def)

subsection \<open>Counters and reset points\<close>

lemma since_reset_snoc:
  "since_reset k (cs @ [c]) =
     (if is_reset c then 0 else since_reset k cs + (if c = k then 1 else 0))"
  by (simp add: since_reset_def)

text \<open>
  Read unsigned, a counter of an aggregator that started new never exceeds the number of
  its increments since the last reset point: an increment adds at most one, a reset gives
  zero, every other call leaves it.
\<close>

lemma unat_SuccessCount_since_reset:
  "unat (SuccessCount (exec cs New)) \<le> since_reset Call_IncrementSuccess cs"
proof (induction cs rule: rev_induct)
  case Nil
  show ?case by (simp add: New_def)
next
  case (snoc c cs)
  have "unat (SuccessCount (exec cs New) + 1) \<le> unat (SuccessCount (exec cs New)) + 1"
    by (rule unat_succ_le)
  with snoc show ?case
    by (simp add: exec_snoc SuccessCount_step since_reset_snoc is_reset_def)
qed

lemma unat_ErrorCount_since_reset:
  "unat (ErrorCount (exec cs New)) \<le> since_reset Call_IncrementError cs"
proof (induction cs rule: rev_induct)
  case Nil
  show ?case by (simp add: New_def)
next
  case (snoc c cs)
  have "unat (ErrorCount (exec cs New) + 1) \<le> unat (ErrorCount (exec cs New)) + 1"
    by (rule unat_succ_le)
  with snoc show ?case
    by (simp add: exec_snoc ErrorCount_step since_reset_snoc is_reset_def)
qed

text \<open>
  Only the calls after the last reset point count, however many came before it.
\<close>

lemma since_reset_after_reset:
  assumes "is_reset c" and "\<forall>y \<in> set ys. \<not> is_reset y"
  shows "since_reset k (xs @ c # ys) = count_list ys k"
proof -
  have "takeWhile (\<lambda>c. \<not> is_reset c) (rev ys @ c # rev xs) = rev ys"
    using assms by (subst takeWhile_append2) simp_all
  then show ?thesis
    by (simp add: since_reset_def)
qed

lemma count_list_replicate_same: "count_list (replicate n k) k = n"
  by (induction n) simp_all

lemma since_reset_long_run:
  "since_reset Call_IncrementSuccess
     (replicate (2 ^ 62) Call_IncrementSuccess @ [Call_resetCounts] @
      replicate (2 ^ 62) Call_IncrementSuccess @ [Call_resetCounts] @
      replicate 5 Call_IncrementSuccess) = 5"
proof -
  have "since_reset Call_IncrementSuccess
     ((replicate (2 ^ 62) Call_IncrementSuccess @ [Call_resetCounts] @
      replicate (2 ^ 62) Call_IncrementSuccess) @ Call_resetCounts #
      replicate 5 Call_IncrementSuccess) =
     count_list (replicate 5 Call_IncrementSuccess) Call_IncrementSuccess"
    by (rule since_reset_after_reset) (simp_all add: is_reset_def)
  then show ?thesis by (simp add: count_list_replicate_same)
qed

subsection \<open>The loop of \<open>FormatOutput\<close> in closed form\<close>

lemma format_errors_enumerate:
  "format_errors i errs result = result @ concat (map report_line (enumerate (i + 1) errs))"
proof (induction errs arbitrary: i result)
  case Nil
  show ?case by simp
next
  case (Cons e es)
  show ?case by (simp add: Cons.IH report_line_def)
qed

lemma FormatOutput_report_spec:
  "fst (FormatOutput \<lparr>Errors = ds, SuccessCount = s, ErrorCount = e\<rparr>) = report_spec s e ds"
  by (simp add: FormatOutput_def report_spec_def format_errors_enumerate Let_def)

lemma fmt_d_1: "fmt_d 1 = ''1''"
  by (simp add: fmt_d_def dec_nat.simps)

lemma fmt_d_2: "fmt_d 2 = ''2''"
  by (simp add: fmt_d_def dec_nat.simps)

lemma ErrBuffer_foldl_AddError: "ErrBuffer (foldl AddError b cs) = ErrBuffer b @ cs"
  by (induction cs arbitrary: b) (simp_all add: AddError_def)

section \<open>The report\<close>

text \<open>
  C1. For every success count \<open>s\<close>, error count \<open>e\<close> and failure-detail list \<open>ds\<close>,
  the report of \<open>GetAggregation\<close> is the header line, the line of successes, the line of
  errors and, if and only if \<open>ds\<close> is non-empty, the line \<open>Error Details:\<close> followed by
  one numbered line per entry, in order. After two \<open>IncrementSuccess\<close>, one
  \<open>IncrementError\<close> and the causes \<open>x\<close> and \<open>y\<close>, the report is the six lines the
  specification gives.
\<close>

theorem C1_report_format:
  "fst (GetAggregation \<lparr>ErrBuffer = ds, SuccessCount = s, ErrorCount = e\<rparr>) = report_spec s e ds \<and>
   fst (GetAggregation
         (exec [Call_IncrementSuccess, Call_IncrementSuccess, Call_IncrementError,
                Call_AddError (errors_New ''x''), Call_AddError (errors_New ''y'')] New)) =
     ''Aggregation Summary:\<newline>  Successes: 2\<newline>  Errors: 1\<newline>  Error Details:\<newline>    1: x\<newline>    2: y\<newline>''"
proof
  show "fst (GetAggregation \<lparr>ErrBuffer = ds, SuccessCount = s, ErrorCount = e\<rparr>) =
          report_spec s e ds"
    by (simp add: GetAggregation_report FormatOutput_report_spec)
next
  have st: "exec [Call_IncrementSuccess, Call_IncrementSuccess, Call_IncrementError,
                  Call_AddError (errors_New ''x''), Call_AddError (errors_New ''y'')] New =
              \<lparr>ErrBuffer = [errors_New ''x'', errors_New ''y''],
                SuccessCount = 2, ErrorCount = 1\<rparr>"
    by (simp add: New_def IncrementSuccess_def IncrementError_def AddError_def)
  show "fst (GetAggregation
         (exec [Call_IncrementSuccess, Call_IncrementSuccess, Call_IncrementError,
                Call_AddError (errors_New ''x''), Call_AddError (errors_New ''y'')] New)) =
     ''Aggregation Summary:\<newline>  Successes: 2\<newline>  Errors: 1\<newline>  Error Details:\<newline>    1: x\<newline>    2: y\<newline>''"
    unfolding st
    by (simp add: GetAggregation_report FormatOutput_def Let_def fmt_d_1 fmt_d_2)
qed

section \<open>Appending and draining\<close>

text \<open>
  C2. Starting from an empty failure-detail sequence, after the causes \<open>cs\<close> have been
  appended one by one with \<open>AddError\<close>, \<open>FlushErrorBuffer\<close> returns exactly \<open>cs\<close>, in
  insertion order, and a second call right after it returns the empty sequence.
\<close>

theorem C2_flush_returns_appended:
  assumes "ErrBuffer b = []"
  shows "fst (FlushErrorBuffer (foldl AddError b cs)) = cs \<and>
         fst (FlushErrorBuffer (snd (FlushErrorBuffer (foldl AddError b cs)))) = []"
  using assms by (simp add: FlushErrorBuffer_eq ErrBuffer_foldl_AddError)

theorem C2_flush_returns_appended_witness:
  "ErrBuffer New = [] \<and>
   fst (FlushErrorBuffer (foldl AddError New [errors_New ''a'', nil, errors_New ''b''])) =
     [errors_New ''a'', nil, errors_New ''b''] \<and>
   fst (FlushErrorBuffer (snd (FlushErrorBuffer
     (foldl AddError New [errors_New ''a'', nil, errors_New ''b''])))) = []"
proof -
  have e: "ErrBuffer New = []"
    by (simp add: New_def)
  from C2_flush_returns_appended [OF e, of "[errors_New ''a'', nil, errors_New ''b'']"] e
  show ?thesis by simp
qed

section \<open>Summarise and reset\<close>

text \<open>
  C3. In every state, \<open>GetAggregation\<close> returns the report formatted from the success
  count, the error count and the failure-detail sequence as they were before the call; the
  state it leaves is the one reached by reading the two counters, then flushing, then
  resetting the counters; in it both counters are zero and the sequence is empty.
\<close>

theorem C3_GetAggregation_snapshot_reset:
  "fst (GetAggregation b) =
     fst (FormatOutput \<lparr>Errors = ErrBuffer b, SuccessCount = SuccessCount b,
                         ErrorCount = ErrorCount b\<rparr>) \<and>
   snd (GetAggregation b) =
     resetCounts (snd (FlushErrorBuffer (snd (GetErrorCount (snd (GetSuccessCount b)))))) \<and>
   SuccessCount (snd (GetAggregation b)) = 0 \<and>
   ErrorCount (snd (GetAggregation b)) = 0 \<and>
   ErrBuffer (snd (GetAggregation b)) = []"
  by (simp add: GetAggregation_report GetAggregation_state GetSuccessCount_def
      GetErrorCount_def FlushErrorBuffer_eq resetCounts_def)

text \<open>
  C4. In every state, right after \<open>GetAggregation\<close> or \<open>resetCounts\<close>, both
  \<open>GetSuccessCount\<close> and \<open>GetErrorCount\<close> return 0.
\<close>

theorem C4_counts_zero_after_reset:
  "sint (fst (GetSuccessCount (snd (GetAggregation b)))) = 0 \<and>
   sint (fst (GetErrorCount (snd (GetAggregation b)))) = 0 \<and>
   sint (fst (GetSuccessCount (resetCounts b))) = 0 \<and>
   sint (fst (GetErrorCount (resetCounts b))) = 0"
  by (simp add: GetAggregation_state GetSuccessCount_def GetErrorCount_def
      FlushErrorBuffer_eq resetCounts_def)

section \<open>Counting\<close>

text \<open>
  Each increment is a single atomic add, so \<open>N\<close> concurrent calls of the same method
  take effect one after the other in some order, and every order is the same sequence:
  the method applied \<open>N\<close> times.

  The counters are \<open>int64\<close> and the add wraps. After \<open>2 ^ 63\<close> calls of
  \<open>IncrementSuccess\<close> on a new aggregator, \<open>GetSuccessCount\<close> does not return
  \<open>2 ^ 63\<close> (it returns \<open>- (2 ^ 63)\<close>), so C5 does not hold for every \<open>N\<close>.
\<close>

theorem C5_counter_wraps_counterexample:
  "sint (fst (GetSuccessCount ((IncrementSuccess ^^ (2 ^ 63)) New))) \<noteq> int (2 ^ 63)"
  by (simp add: GetSuccessCount_def SuccessCount_funpow_IncrementSuccess New_def)

text \<open>
  C5, amended. For every \<open>N\<close> below \<open>2 ^ 63\<close>: after \<open>N\<close> calls of
  \<open>IncrementSuccess\<close> starting from a zero success counter, \<open>GetSuccessCount\<close>
  returns \<open>N\<close>; and after \<open>N\<close> calls of \<open>IncrementError\<close> starting from a zero error
  counter, \<open>GetErrorCount\<close> returns \<open>N\<close>.
\<close>

theorem C5_counts_equal_calls:
  assumes "N < 2 ^ 63" and "SuccessCount b = 0" and "ErrorCount b' = 0"
  shows "sint (fst (GetSuccessCount ((IncrementSuccess ^^ N) b))) = int N \<and>
         sint (fst (GetErrorCount ((IncrementError ^^ N) b'))) = int N"
  using assms
  by (simp add: GetSuccessCount_def GetErrorCount_def SuccessCount_funpow_IncrementSuccess
      ErrorCount_funpow_IncrementError sint_word_of_nat_small)

theorem C5_counts_equal_calls_witness:
  "sint (fst (GetSuccessCount ((IncrementSuccess ^^ 3) New))) = 3 \<and>
   sint (fst (GetErrorCount ((IncrementError ^^ 3) New))) = 3"
proof -
  have n: "(3::nat) < 2 ^ 63"
    by simp
  have s: "SuccessCount New = 0"
    by (simp add: New_def)
  have e: "ErrorCount New = 0"
    by (simp add: New_def)
  from C5_counts_equal_calls [OF n s e] show ?thesis by simp
qed

section \<open>Invariants\<close>

text \<open>
  C6. In every state (the reachable ones among them) and for every call, the
  failure-detail sequence afterwards either has the previous sequence as a prefix, or is
  empty: nothing is ever removed in part or reordered.
\<close>

theorem C6_buffer_appended_or_drained:
  "prefix (ErrBuffer b) (ErrBuffer (snd (step c b))) \<or> ErrBuffer (snd (step c b)) = []"
  by (cases c)
    (simp_all add: AddError_def FlushErrorBuffer_eq IncrementSuccess_def IncrementError_def
      resetCounts_def GetSuccessCount_def GetErrorCount_def GetAggregation_state split_beta)

text \<open>
  The wrap-around also decides C7 as it is worded. On a new aggregator, \<open>2 ^ 63\<close> calls
  of \<open>IncrementSuccess\<close> leave a negative success count; and after \<open>2 ^ 63 - 1\<close> of
  them, one more \<open>IncrementSuccess\<close>, which is no reset, decreases the count.
\<close>

theorem C7_counter_wraps_counterexample:
  "sint (SuccessCount (exec (replicate (2 ^ 63) Call_IncrementSuccess) New)) < 0 \<and>
   sint (SuccessCount (snd (step Call_IncrementSuccess
           (exec (replicate (2 ^ 63 - 1) Call_IncrementSuccess) New))))
     < sint (SuccessCount (exec (replicate (2 ^ 63 - 1) Call_IncrementSuccess) New))"
  by (simp add: SuccessCount_exec_replicate New_def IncrementSuccess_def)

text \<open>
  C7, amended. Starting from a new aggregator, after every sequence of calls the success
  count is non-negative if fewer than \<open>2 ^ 63\<close> calls of \<open>IncrementSuccess\<close> were
  made since the last reset point (construction, \<open>resetCounts\<close> or
  \<open>GetAggregation\<close>), and the error count is non-negative if fewer than \<open>2 ^ 63\<close>
  calls of \<open>IncrementError\<close> were made since then; and as long as the increments of a
  counter since the last reset point, the next call included, stay below \<open>2 ^ 63\<close>, a
  next call other than \<open>resetCounts\<close> and \<open>GetAggregation\<close> does not decrease that
  counter. Calls before the last reset point do not count, whatever their number.
\<close>

theorem C7_counts_nonneg_monotone:
  "(since_reset Call_IncrementSuccess cs < 2 ^ 63 \<longrightarrow>
      0 \<le> sint (SuccessCount (exec cs New))) \<and>
   (since_reset Call_IncrementError cs < 2 ^ 63 \<longrightarrow>
      0 \<le> sint (ErrorCount (exec cs New))) \<and>
   (c \<noteq> Call_resetCounts \<and> c \<noteq> Call_GetAggregation \<and>
    since_reset Call_IncrementSuccess (cs @ [c]) < 2 ^ 63 \<longrightarrow>
      sint (SuccessCount (exec cs New)) \<le> sint (SuccessCount (snd (step c (exec cs New))))) \<and>
   (c \<noteq> Call_resetCounts \<and> c \<noteq> Call_GetAggregation \<and>
    since_reset Call_IncrementError (cs @ [c]) < 2 ^ 63 \<longrightarrow>
      sint (ErrorCount (exec cs New)) \<le> sint (ErrorCount (snd (step c (exec cs New)))))"
proof -
  have s: "unat (SuccessCount (exec cs New)) \<le> since_reset Call_IncrementSuccess cs"
    by (rule unat_SuccessCount_since_reset)
  have e: "unat (ErrorCount (exec cs New)) \<le> since_reset Call_IncrementError cs"
    by (rule unat_ErrorCount_since_reset)
  have c1: "0 \<le> sint (SuccessCount (exec cs New))"
    if "since_reset Call_IncrementSuccess cs < 2 ^ 63"
    using sint_eq_unat_small [of "SuccessCount (exec cs New)"] s that by simp
  have c2: "0 \<le> sint (ErrorCount (exec cs New))"
    if "since_reset Call_IncrementError cs < 2 ^ 63"
    using sint_eq_unat_small [of "ErrorCount (exec cs New)"] e that by simp
  have c3: "sint (SuccessCount (exec cs New)) \<le> sint (SuccessCount (snd (step c (exec cs New))))"
    if "c \<noteq> Call_resetCounts" "c \<noteq> Call_GetAggregation"
      "since_reset Call_IncrementSuccess (cs @ [c]) < 2 ^ 63"
  proof (cases "c = Call_IncrementSuccess")
    case True
    with that s have "unat (SuccessCount (exec cs New)) + 1 < 2 ^ 63"
      by (simp add: since_reset_snoc is_reset_def)
    then have "sint (SuccessCount (exec cs New) + 1) = sint (SuccessCount (exec cs New)) + 1"
      by (rule sint_succ_small)
    with True show ?thesis
      by (simp add: IncrementSuccess_def)
  next
    case False
    with that show ?thesis
      by (simp add: SuccessCount_step)
  qed
  have c4: "sint (ErrorCount (exec cs New)) \<le> sint (ErrorCount (snd (step c (exec cs New))))"
    if "c \<noteq> Call_resetCounts" "c \<noteq> Call_GetAggregation"
      "since_reset Call_IncrementError (cs @ [c]) < 2 ^ 63"
  proof (cases "c = Call_IncrementError")
    case True
    with that e have "unat (ErrorCount (exec cs New)) + 1 < 2 ^ 63"
      by (simp add: since_reset_snoc is_reset_def)
    then have "sint (ErrorCount (exec cs New) + 1) = sint (ErrorCount (exec cs New)) + 1"
      by (rule sint_succ_small)
    with True show ?thesis
      by (simp add: IncrementError_def)
  next
    case False
    with that show ?thesis
      by (simp add: ErrorCount_step)
  qed
  from c1 c2 c3 c4 show ?thesis by blast
qed

theorem C7_counts_nonneg_monotone_witness:
  "0 \<le> sint (SuccessCount (exec [Call_IncrementSuccess, Call_IncrementError, Call_resetCounts,
                                  Call_IncrementSuccess, Call_AddError nil, Call_IncrementError] New)) \<and>
   0 \<le> sint (ErrorCount (exec [Call_IncrementSuccess, Call_IncrementError, Call_resetCounts,
                                Call_IncrementSuccess, Call_AddError nil, Call_IncrementError] New)) \<and>
   sint (SuccessCount (exec [Call_IncrementSuccess, Call_IncrementError, Call_resetCounts,
                             Call_IncrementSuccess, Call_AddError nil, Call_IncrementError] New))
     \<le> sint (SuccessCount (snd (step Call_IncrementSuccess
           (exec [Call_IncrementSuccess, Call_IncrementError, Call_resetCounts,
                  Call_IncrementSuccess, Call_AddError nil, Call_IncrementError] New)))) \<and>
   sint (ErrorCount (exec [Call_IncrementSuccess, Call_IncrementError, Call_resetCounts,
                           Call_IncrementSuccess, Call_AddError nil, Call_IncrementError] New))
     \<le> sint (ErrorCount (snd (step Call_IncrementSuccess
           (exec [Call_IncrementSuccess, Call_IncrementError, Call_resetCounts,
                  Call_IncrementSuccess, Call_AddError nil, Call_IncrementError] New))))"
  using C7_counts_nonneg_monotone
    [of "[Call_IncrementSuccess, Call_IncrementError, Call_resetCounts,
          Call_IncrementSuccess, Call_AddError nil, Call_IncrementError]" Call_IncrementSuccess]
  by (simp add: since_reset_def is_reset_def)

section \<open>Recording an error\<close>

text \<open>
  C8. \<open>AddError\<close> takes every cause, the nil one included, has no failing path, hands
  nothing back, and leaves the given cause, unchanged, as the last element of the
  failure-detail sequence.
\<close>

theorem C8_AddError_total:
  "step (Call_AddError item) b = (Ret_none, AddError b item) \<and>
   ErrBuffer (AddError b item) = ErrBuffer b @ [item] \<and>
   last (ErrBuffer (AddError b item)) = item \<and>
   ErrBuffer (AddError b nil) = ErrBuffer b @ [nil]"
  by (simp add: AddError_def)

section \<open>Construction\<close>

text \<open>
  C9. \<open>New\<close> yields an empty aggregator: both counter reads give 0 and a flush gives
  the empty sequence.
\<close>

theorem C9_New_empty:
  "sint (fst (GetSuccessCount New)) = 0 \<and>
   sint (fst (GetErrorCount New)) = 0 \<and>
   fst (FlushErrorBuffer New) = []"
  by (simp add: New_def GetSuccessCount_def GetErrorCount_def FlushErrorBuffer_eq)

section \<open>Frame conditions\<close>

text \<open>
  C10. \<open>AddError\<close> and \<open>FlushErrorBuffer\<close> leave both counters as they were;
  \<open>IncrementSuccess\<close>, \<open>IncrementError\<close> and \<open>resetCounts\<close> leave the failure-detail
  sequence as it was; \<open>GetSuccessCount\<close> and \<open>GetErrorCount\<close> leave the whole state as
  it was; \<open>FormatOutput\<close>, whose receiver is the snapshot and not the buffer, leaves its
  receiver as it was.
\<close>

theorem C10_frame:
  "SuccessCount (AddError b item) = SuccessCount b \<and>
   ErrorCount (AddError b item) = ErrorCount b \<and>
   SuccessCount (snd (FlushErrorBuffer b)) = SuccessCount b \<and>
   ErrorCount (snd (FlushErrorBuffer b)) = ErrorCount b \<and>
   ErrBuffer (IncrementSuccess b) = ErrBuffer b \<and>
   ErrBuffer (IncrementError b) = ErrBuffer b \<and>
   ErrBuffer (resetCounts b) = ErrBuffer b \<and>
   snd (GetSuccessCount b) = b \<and>
   snd (GetErrorCount b) = b \<and>
   snd (FormatOutput a) = a"
  by (simp add: AddError_def FlushErrorBuffer_eq IncrementSuccess_def IncrementError_def
      resetCounts_def GetSuccessCount_def GetErrorCount_def FormatOutput_def Let_def)

end
